theory Spec2Isabelle
  imports Main
begin

section \<open>Code personality themes: the mode engine of src/extension.ts\<close>

text \<open>
  The extension infers a working mode from edit activity and diagnostics and switches the
  colour theme of the editor. Every function of \<^verbatim>\<open>extension.ts\<close> that the properties
  below speak about is embedded here as a HOL function. What the source reads from its
  surroundings is an explicit argument:
  \<^item> \<^verbatim>\<open>Date.now()\<close> is the argument \<open>now\<close> (milliseconds, an integer; JavaScript
    numbers are exact on integers of this size, so \<open>int\<close> arithmetic is the source's);
  \<^item> \<^verbatim>\<open>getConfig()\<close> is the argument \<open>cfg\<close>;
  \<^item> the editor (open documents, the diagnostics registry, the current colour theme)
    is the argument \<open>h\<close>.
  The fields that the source mutates in place are returned as a new state.
\<close>

subsection \<open>Data\<close>

datatype Mode = Calm | Focus | Panic

text \<open>The private fields of \<^verbatim>\<open>class PersonalityState\<close>; \<^verbatim>\<open>null\<close> is \<open>None\<close>.\<close>

record PersonalityState =
  lastEditAt :: int
  editTimestamps :: "int list"
  lastAppliedAt :: int
  lastMode :: "Mode option"

text \<open>The field initialisers: \<^verbatim>\<open>lastEditAt = Date.now()\<close>, an empty window, 0 and null.\<close>

definition newPersonalityState :: "int \<Rightarrow> PersonalityState" where
  "newPersonalityState now =
     \<lparr>lastEditAt = now, editTimestamps = [], lastAppliedAt = 0, lastMode = None\<rparr>"

text \<open>The object \<^verbatim>\<open>getConfig()\<close> returns.\<close>

record Config =
  calmTheme :: string
  focusTheme :: string
  panicTheme :: string
  panicErrorThreshold :: int
  focusTypingBurstThreshold :: int
  idleSecondsForCalm :: int
  cooldownSeconds :: int

text \<open>The defaults \<^verbatim>\<open>getConfig()\<close> passes to \<^verbatim>\<open>c.get\<close>.\<close>

definition defaultConfig :: Config where
  "defaultConfig =
     \<lparr>calmTheme = ''Personality: Calm'', focusTheme = ''Personality: Focus'',
      panicTheme = ''Personality: Panic'', panicErrorThreshold = 5,
      focusTypingBurstThreshold = 12, idleSecondsForCalm = 20, cooldownSeconds = 15\<rparr>"

type_synonym Uri = string
type_synonym Diagnostic = string

text \<open>
  The part of the editor the source reads: \<^verbatim>\<open>vscode.workspace.textDocuments\<close> (the
  uris of the open documents, in order), \<^verbatim>\<open>vscode.languages.getDiagnostics()\<close> (the
  registry: one pair of a uri and its diagnostics per resource that has any) and the
  setting \<^verbatim>\<open>workbench.colorTheme\<close> (\<open>None\<close> when it is undefined).
\<close>

record Host =
  textDocuments :: "Uri list"
  diagnostics :: "(Uri \<times> Diagnostic list) list"
  colorTheme :: "string option"

text \<open>
  \<^verbatim>\<open>vscode.languages.getDiagnostics(uri)\<close>: the diagnostics the registry holds for one
  resource, none when the registry has no entry for it.
\<close>

definition getDiagnosticsOf :: "Host \<Rightarrow> Uri \<Rightarrow> Diagnostic list" where
  "getDiagnosticsOf h uri = concat (map snd (filter (\<lambda>e. fst e = uri) (diagnostics h)))"

subsection \<open>Counting diagnostics\<close>

text \<open>
  \<^verbatim>\<open>countAllDiagnostics\<close> runs two loops over one accumulator (\<^verbatim>\<open>total\<close> in
  the source, \<open>tot\<close> here): the first over the uris of the open documents, adding the
  length of each one's diagnostics, the second over every pair of the registry, adding
  the length of its diagnostics.
\<close>

fun countOpenDocuments :: "Host \<Rightarrow> Uri list \<Rightarrow> int \<Rightarrow> int" where
  "countOpenDocuments h [] tot = tot"
| "countOpenDocuments h (uri # uris) tot =
     countOpenDocuments h uris (tot + int (length (getDiagnosticsOf h uri)))"

fun countRegistry :: "(Uri \<times> Diagnostic list) list \<Rightarrow> int \<Rightarrow> int" where
  "countRegistry [] tot = tot"
| "countRegistry (entry # entries) tot =
     countRegistry entries (tot + int (length (snd entry)))"

definition countAllDiagnostics :: "Host \<Rightarrow> int" where
  "countAllDiagnostics h =
     countRegistry (diagnostics h) (countOpenDocuments h (textDocuments h) 0)"

text \<open>
  For comparison, the count in the words of the specification: the sum of all
  diagnostics across all known documents, each diagnostic once.
\<close>

definition spec_diagnosticsTotal :: "Host \<Rightarrow> int" where
  "spec_diagnosticsTotal h = (\<Sum>entry\<leftarrow>diagnostics h. int (length (snd entry)))"

subsection \<open>The signal tracker\<close>

text \<open>
  \<^verbatim>\<open>onEdit\<close>: store the time of the edit, push it on the window, then keep the
  entries \<open>t\<close> with \<^verbatim>\<open>t >= now - 10_000\<close>.
\<close>

definition onEdit :: "int \<Rightarrow> PersonalityState \<Rightarrow> PersonalityState" where
  "onEdit now st =
     (let cutoff = now - 10000
      in st\<lparr>lastEditAt := now,
            editTimestamps := filter (\<lambda>t. t \<ge> cutoff) (editTimestamps st @ [now])\<rparr>)"

text \<open>A run of the edit handler, one call per clock reading of the list, in order.\<close>

fun recordEdits :: "int list \<Rightarrow> PersonalityState \<Rightarrow> PersonalityState" where
  "recordEdits [] st = st"
| "recordEdits (now # later) st = recordEdits later (onEdit now st)"

text \<open>The local \<^verbatim>\<open>editsInWindow\<close> of \<^verbatim>\<open>computeMode\<close>: the length of the window.\<close>

definition editsInWindow :: "PersonalityState \<Rightarrow> int" where
  "editsInWindow st = int (length (editTimestamps st))"

text \<open>
  The property the specification gives the window at a read at time \<open>now\<close>: no entry
  is older than ten seconds.
\<close>

definition windowFresh :: "int \<Rightarrow> PersonalityState \<Rightarrow> bool" where
  "windowFresh now st = list_all (\<lambda>t. now - 10000 \<le> t) (editTimestamps st)"

subsection \<open>The mode decision\<close>

text \<open>\<^verbatim>\<open>computeMode\<close> reads the state and changes nothing: three checks in order.\<close>

definition computeMode :: "PersonalityState \<Rightarrow> Config \<Rightarrow> int \<Rightarrow> Host \<Rightarrow> Mode" where
  "computeMode st cfg now h =
     (let totalDiagnostics = countAllDiagnostics h in
      if totalDiagnostics \<ge> panicErrorThreshold cfg then Panic
      else if editsInWindow st \<ge> focusTypingBurstThreshold cfg then Focus
      else let idleMs = now - lastEditAt st in
        if idleMs \<ge> idleSecondsForCalm cfg * 1000 then Calm
        else Focus)"

definition isPanicRecovery :: "PersonalityState \<Rightarrow> Mode \<Rightarrow> bool" where
  "isPanicRecovery st newMode = (lastMode st = Some Panic \<and> newMode \<noteq> Panic)"

definition canApply :: "PersonalityState \<Rightarrow> Config \<Rightarrow> int \<Rightarrow> Mode \<Rightarrow> bool \<Rightarrow> bool" where
  "canApply st cfg now mode force =
     (if force then True
      else if lastMode st = Some mode then False
      else if lastMode st = Some Panic \<and> mode = Calm then True
      else let cooldownMs = cooldownSeconds cfg * 1000 in
        if now - lastAppliedAt st < cooldownMs then False
        else True)"

definition markApplied :: "PersonalityState \<Rightarrow> int \<Rightarrow> Mode \<Rightarrow> PersonalityState" where
  "markApplied st now mode = st\<lparr>lastAppliedAt := now, lastMode := Some mode\<rparr>"

subsection \<open>Applying a mode\<close>

text \<open>The conditional expression of \<^verbatim>\<open>applyMode\<close> that picks the theme of a mode.\<close>

definition themeOf :: "Config \<Rightarrow> Mode \<Rightarrow> string" where
  "themeOf cfg mode =
     (if mode = Calm then calmTheme cfg
      else if mode = Panic then panicTheme cfg
      else focusTheme cfg)"

text \<open>
  How a call of \<^verbatim>\<open>applyMode\<close> ends: it returns at the gate (\<open>Refused\<close>); the awaited
  \<^verbatim>\<open>workbench.update\<close> rejects and the exception leaves the function before
  \<^verbatim>\<open>markApplied\<close> (\<open>UpdateFailed\<close>); the current theme is already the wanted one, so
  no update is made (\<open>AlreadyCurrent\<close>); or the update is made and resolves
  (\<open>Updated\<close>).
\<close>

datatype ApplyOutcome = Refused | UpdateFailed | AlreadyCurrent | Updated

text \<open>
  \<^verbatim>\<open>applyMode(mode, state, force)\<close>. \<open>updateResolves\<close> says whether the editor's
  \<^verbatim>\<open>workbench.update\<close> resolves, should it be called; \<open>now\<close> is the clock that
  \<^verbatim>\<open>canApply\<close> reads and \<open>nowMark\<close> the one \<^verbatim>\<open>markApplied\<close> reads after the
  await. The result is the state, the editor and how the call ended.
\<close>

definition applyMode ::
  "Mode \<Rightarrow> PersonalityState \<Rightarrow> bool \<Rightarrow> Config \<Rightarrow> Host \<Rightarrow> bool \<Rightarrow> int \<Rightarrow> int
     \<Rightarrow> PersonalityState \<times> Host \<times> ApplyOutcome" where
  "applyMode mode st force cfg h updateResolves now nowMark =
     (if \<not> canApply st cfg now mode force then (st, h, Refused)
      else let theme = themeOf cfg mode; currentTheme = colorTheme h in
        if currentTheme \<noteq> Some theme then
          (if updateResolves
           then (markApplied st nowMark mode, h\<lparr>colorTheme := Some theme\<rparr>, Updated)
           else (st, h, UpdateFailed))
        else (markApplied st nowMark mode, h, AlreadyCurrent))"

text \<open>
  The body of the timer handler (run every second while the extension is enabled):
  compute the mode, then apply it, forced exactly when it leaves panic.
\<close>

definition tick ::
  "PersonalityState \<Rightarrow> Config \<Rightarrow> Host \<Rightarrow> bool \<Rightarrow> int \<Rightarrow> int
     \<Rightarrow> PersonalityState \<times> Host \<times> ApplyOutcome" where
  "tick st cfg h updateResolves now nowMark =
     (let mode = computeMode st cfg now h;
          recovery = isPanicRecovery st mode
      in applyMode mode st recovery cfg h updateResolves now nowMark)"

subsection \<open>The invariant of the edit window\<close>

text \<open>
  What every call of \<open>onEdit\<close> establishes and a non-decreasing clock keeps: the
  window is in ascending order, and none of its entries is more than ten seconds older
  than the last edit, or later than it.
\<close>

definition windowInv :: "PersonalityState \<Rightarrow> bool" where
  "windowInv st \<longleftrightarrow>
     sorted (editTimestamps st) \<and> windowFresh (lastEditAt st) st \<and>
     list_all (\<lambda>t. t \<le> lastEditAt st) (editTimestamps st)"

section \<open>Properties\<close>

subsection \<open>Helper facts\<close>

lemma countRegistry_sum:
  "countRegistry es tot = tot + (\<Sum>entry\<leftarrow>es. int (length (snd entry)))"
  by (induction es arbitrary: tot) simp_all

lemma countOpenDocuments_sum:
  "countOpenDocuments h us tot = tot + (\<Sum>uri\<leftarrow>us. int (length (getDiagnosticsOf h uri)))"
  by (induction us arbitrary: tot) simp_all

lemma countAllDiagnostics_split:
  "countAllDiagnostics h =
     spec_diagnosticsTotal h + (\<Sum>uri\<leftarrow>textDocuments h. int (length (getDiagnosticsOf h uri)))"
  by (simp add: countAllDiagnostics_def spec_diagnosticsTotal_def countRegistry_sum
      countOpenDocuments_sum)

lemma editsInWindow_nonneg: "0 \<le> editsInWindow st"
  by (simp add: editsInWindow_def)

subsection \<open>The mode decision\<close>

text \<open>
  C2. Whenever the diagnostics count is at least \<open>panicErrorThreshold\<close>, \<open>computeMode\<close>
  returns \<open>Panic\<close>, whatever the edit window, the time of the last edit and the clock
  are: the diagnostics check comes first.
\<close>

theorem computeMode_panic_first:
  assumes "panicErrorThreshold cfg \<le> countAllDiagnostics h"
  shows "computeMode st cfg now h = Panic"
  using assms by (simp add: computeMode_def)

theorem computeMode_panic_first_witness:
  "panicErrorThreshold defaultConfig
     \<le> countAllDiagnostics \<lparr>textDocuments = [], diagnostics = [(''a.ts'', [''e1'', ''e2'', ''e3'', ''e4'', ''e5''])], colorTheme = None\<rparr>
   \<and> computeMode (recordEdits [1000, 1100, 1200] (newPersonalityState 0)) defaultConfig 90000
       \<lparr>textDocuments = [], diagnostics = [(''a.ts'', [''e1'', ''e2'', ''e3'', ''e4'', ''e5''])], colorTheme = None\<rparr>
     = Panic"
proof -
  let ?h = "\<lparr>textDocuments = [], diagnostics = [(''a.ts'', [''e1'', ''e2'', ''e3'', ''e4'', ''e5''])], colorTheme = None\<rparr>"
  have pre: "panicErrorThreshold defaultConfig \<le> countAllDiagnostics ?h"
    by (simp add: defaultConfig_def countAllDiagnostics_def)
  from pre computeMode_panic_first [OF pre] show ?thesis by simp
qed

text \<open>
  The count of the specification is never above the count the code feeds into the
  decision, so a panic by the specification's count is a panic of the code too.
\<close>

lemma spec_diagnosticsTotal_le: "spec_diagnosticsTotal h \<le> countAllDiagnostics h"
proof -
  have "0 \<le> (\<Sum>uri\<leftarrow>textDocuments h. int (length (getDiagnosticsOf h uri)))"
    by (rule sum_list_nonneg) auto
  then show ?thesis
    by (simp add: countAllDiagnostics_split)
qed

theorem computeMode_panic_spec_count:
  assumes "panicErrorThreshold cfg \<le> spec_diagnosticsTotal h"
  shows "computeMode st cfg now h = Panic"
proof -
  from assms spec_diagnosticsTotal_le [of h]
  have "panicErrorThreshold cfg \<le> countAllDiagnostics h" by linarith
  then show ?thesis by (simp add: computeMode_def)
qed

theorem computeMode_panic_spec_count_witness:
  "panicErrorThreshold defaultConfig
     \<le> spec_diagnosticsTotal \<lparr>textDocuments = [''b.ts''], diagnostics = [(''a.ts'', [''e1'', ''e2'', ''e3'', ''e4'', ''e5''])], colorTheme = None\<rparr>
   \<and> computeMode (newPersonalityState 0) defaultConfig 90000
       \<lparr>textDocuments = [''b.ts''], diagnostics = [(''a.ts'', [''e1'', ''e2'', ''e3'', ''e4'', ''e5''])], colorTheme = None\<rparr>
     = Panic"
proof -
  let ?h = "\<lparr>textDocuments = [''b.ts''], diagnostics = [(''a.ts'', [''e1'', ''e2'', ''e3'', ''e4'', ''e5''])], colorTheme = None\<rparr>"
  have pre: "panicErrorThreshold defaultConfig \<le> spec_diagnosticsTotal ?h"
    by (simp add: defaultConfig_def spec_diagnosticsTotal_def)
  from pre computeMode_panic_spec_count [OF pre] show ?thesis by simp
qed

text \<open>
  C8. Whenever the diagnostics count is below \<open>panicErrorThreshold\<close> and the number of
  edits in the window is at least \<open>focusTypingBurstThreshold\<close>, \<open>computeMode\<close> returns
  \<open>Focus\<close>, for every clock and every time of the last edit, so also when the idle time
  has reached \<open>idleSecondsForCalm * 1000\<close>: the burst check comes before the idle check.
\<close>

theorem computeMode_burst_before_idle:
  assumes "countAllDiagnostics h < panicErrorThreshold cfg"
    and "focusTypingBurstThreshold cfg \<le> editsInWindow st"
  shows "computeMode st cfg now h = Focus"
  using assms by (simp add: computeMode_def)

text \<open>
  The witness: twelve edits within 1.1 seconds, no diagnostics, and a read 100 seconds
  later, when the idle time is far beyond the 20 seconds of the default configuration.
\<close>

theorem computeMode_burst_before_idle_witness:
  "countAllDiagnostics \<lparr>textDocuments = [''a.ts''], diagnostics = [], colorTheme = None\<rparr>
     < panicErrorThreshold defaultConfig
   \<and> focusTypingBurstThreshold defaultConfig
     \<le> editsInWindow (recordEdits [0, 100, 200, 300, 400, 500, 600, 700, 800, 900, 1000, 1100]
          (newPersonalityState 0))
   \<and> idleSecondsForCalm defaultConfig * 1000
     \<le> 100000 - lastEditAt (recordEdits [0, 100, 200, 300, 400, 500, 600, 700, 800, 900, 1000, 1100]
          (newPersonalityState 0))
   \<and> computeMode (recordEdits [0, 100, 200, 300, 400, 500, 600, 700, 800, 900, 1000, 1100]
          (newPersonalityState 0)) defaultConfig 100000
        \<lparr>textDocuments = [''a.ts''], diagnostics = [], colorTheme = None\<rparr> = Focus"
proof -
  let ?h = "\<lparr>textDocuments = [''a.ts''], diagnostics = [], colorTheme = None\<rparr>"
  let ?st = "recordEdits [0, 100, 200, 300, 400, 500, 600, 700, 800, 900, 1000, 1100]
          (newPersonalityState 0)"
  have d: "countAllDiagnostics ?h < panicErrorThreshold defaultConfig"
    by (simp add: countAllDiagnostics_def getDiagnosticsOf_def defaultConfig_def)
  have b: "focusTypingBurstThreshold defaultConfig \<le> editsInWindow ?st"
    by (simp add: editsInWindow_def onEdit_def newPersonalityState_def defaultConfig_def)
  have i: "idleSecondsForCalm defaultConfig * 1000 \<le> 100000 - lastEditAt ?st"
    by (simp add: onEdit_def newPersonalityState_def defaultConfig_def)
  from d b i computeMode_burst_before_idle [OF d b, of 100000] show ?thesis by simp
qed

text \<open>
  C10. When \<open>focusTypingBurstThreshold\<close> is 0, \<open>computeMode\<close> never returns \<open>Calm\<close>:
  whenever the diagnostics count is below \<open>panicErrorThreshold\<close> it returns \<open>Focus\<close>,
  whatever the idle time, because the length of the window is never negative and so
  passes the burst check.
\<close>

theorem computeMode_zero_burst_threshold_never_calm:
  assumes "focusTypingBurstThreshold cfg = 0"
  shows "computeMode st cfg now h \<noteq> Calm \<and>
         (countAllDiagnostics h < panicErrorThreshold cfg \<longrightarrow> computeMode st cfg now h = Focus)"
  using assms editsInWindow_nonneg [of st] by (simp add: computeMode_def)

text \<open>The witness: no edit for 100 seconds, no diagnostics, and the threshold set to 0.\<close>

theorem computeMode_zero_burst_threshold_never_calm_witness:
  "focusTypingBurstThreshold (defaultConfig\<lparr>focusTypingBurstThreshold := 0\<rparr>) = 0
   \<and> countAllDiagnostics \<lparr>textDocuments = [], diagnostics = [], colorTheme = None\<rparr>
       < panicErrorThreshold (defaultConfig\<lparr>focusTypingBurstThreshold := 0\<rparr>)
   \<and> computeMode (newPersonalityState 0) (defaultConfig\<lparr>focusTypingBurstThreshold := 0\<rparr>) 100000
        \<lparr>textDocuments = [], diagnostics = [], colorTheme = None\<rparr> = Focus
   \<and> computeMode (newPersonalityState 0) (defaultConfig\<lparr>focusTypingBurstThreshold := 0\<rparr>) 100000
        \<lparr>textDocuments = [], diagnostics = [], colorTheme = None\<rparr> \<noteq> Calm"
proof -
  let ?cfg = "defaultConfig\<lparr>focusTypingBurstThreshold := 0\<rparr>"
  let ?h = "\<lparr>textDocuments = [], diagnostics = [], colorTheme = None\<rparr>"
  have z: "focusTypingBurstThreshold ?cfg = 0" by simp
  have d: "countAllDiagnostics ?h < panicErrorThreshold ?cfg"
    by (simp add: countAllDiagnostics_def defaultConfig_def)
  from z d computeMode_zero_burst_threshold_never_calm [OF z, of "newPersonalityState 0" 100000 ?h]
  show ?thesis by simp
qed

subsection \<open>Counting diagnostics\<close>

text \<open>
  C1. The claim: \<open>countAllDiagnostics\<close> returns the number of diagnostics of all known
  documents, each diagnostic counted once. The code counts the diagnostics of every
  open document in its first loop and again in its second, which runs over the whole
  registry. With one open document that has three diagnostics the code returns 6 where
  the sum is 3, and under the default configuration (threshold 5) \<open>computeMode\<close>
  answers \<open>Panic\<close> for three diagnostics.
\<close>

theorem countAllDiagnostics_open_document_twice:
  "countAllDiagnostics
     \<lparr>textDocuments = [''file:///a.ts''],
      diagnostics = [(''file:///a.ts'', [''e1'', ''e2'', ''e3''])], colorTheme = None\<rparr> = 6
   \<and> spec_diagnosticsTotal
     \<lparr>textDocuments = [''file:///a.ts''],
      diagnostics = [(''file:///a.ts'', [''e1'', ''e2'', ''e3''])], colorTheme = None\<rparr> = 3
   \<and> computeMode (newPersonalityState 0) defaultConfig 0
     \<lparr>textDocuments = [''file:///a.ts''],
      diagnostics = [(''file:///a.ts'', [''e1'', ''e2'', ''e3''])], colorTheme = None\<rparr> = Panic"
  by (simp add: countAllDiagnostics_def spec_diagnosticsTotal_def getDiagnosticsOf_def
      computeMode_def defaultConfig_def)

text \<open>
  In general the code's count is the sum over the registry plus, once more, the
  diagnostics of every open document (an open document listed twice adds them twice).
\<close>

theorem countAllDiagnostics_registry_plus_open:
  "countAllDiagnostics h =
     spec_diagnosticsTotal h + (\<Sum>uri\<leftarrow>textDocuments h. int (length (getDiagnosticsOf h uri)))"
  by (rule countAllDiagnostics_split)

subsection \<open>The gate\<close>

text \<open>
  C5. With \<open>force = false\<close>, when the last applied mode is \<open>Panic\<close> and the candidate
  is \<open>Calm\<close>, \<open>canApply\<close> returns true however little time has passed since the last
  apply. The bypass is asymmetric: for the candidate \<open>Focus\<close> after \<open>Panic\<close> the result
  is that of the cooldown check, true exactly when
  \<open>now - lastAppliedAt < cooldownSeconds * 1000\<close> is false.
\<close>

theorem canApply_panic_to_calm_bypass:
  assumes "lastMode st = Some Panic"
  shows "canApply st cfg now Calm False \<and>
         (canApply st cfg now Focus False
            \<longleftrightarrow> \<not> now - lastAppliedAt st < cooldownSeconds cfg * 1000)"
  using assms by (simp add: canApply_def)

text \<open>
  The witness: panic applied at 1000, asked again one millisecond later: \<open>Calm\<close> passes,
  \<open>Focus\<close> is refused by the cooldown of 15 seconds.
\<close>

theorem canApply_panic_to_calm_bypass_witness:
  "lastMode (markApplied (newPersonalityState 0) 1000 Panic) = Some Panic
   \<and> canApply (markApplied (newPersonalityState 0) 1000 Panic) defaultConfig 1001 Calm False
   \<and> \<not> canApply (markApplied (newPersonalityState 0) 1000 Panic) defaultConfig 1001 Focus False"
proof -
  let ?st = "markApplied (newPersonalityState 0) 1000 Panic"
  have p: "lastMode ?st = Some Panic" by (simp add: markApplied_def)
  from p canApply_panic_to_calm_bypass [OF p, of defaultConfig 1001] show ?thesis
    by (simp add: markApplied_def newPersonalityState_def defaultConfig_def)
qed

text \<open>
  C6. With \<open>cooldownSeconds = 15\<close>, for a candidate that is not forced, differs from the
  last applied mode and is not \<open>Calm\<close> after \<open>Panic\<close>: \<open>canApply\<close> returns false when
  \<open>now - lastAppliedAt\<close> is 10 seconds and true when it is 16 seconds.
\<close>

theorem canApply_cooldown_15:
  assumes "cooldownSeconds cfg = 15"
    and "lastMode st \<noteq> Some mode"
    and "\<not> (lastMode st = Some Panic \<and> mode = Calm)"
  shows "\<not> canApply st cfg (lastAppliedAt st + 10000) mode False \<and>
         canApply st cfg (lastAppliedAt st + 16000) mode False"
  using assms by (simp add: canApply_def)

text \<open>The witness: calm applied at 5000, focus asked for at 15000 and at 21000.\<close>

theorem canApply_cooldown_15_witness:
  "cooldownSeconds defaultConfig = 15
   \<and> lastMode (markApplied (newPersonalityState 0) 5000 Calm) \<noteq> Some Focus
   \<and> \<not> canApply (markApplied (newPersonalityState 0) 5000 Calm) defaultConfig 15000 Focus False
   \<and> canApply (markApplied (newPersonalityState 0) 5000 Calm) defaultConfig 21000 Focus False"
proof -
  let ?st = "markApplied (newPersonalityState 0) 5000 Calm"
  have c: "cooldownSeconds defaultConfig = 15" by (simp add: defaultConfig_def)
  have m: "lastMode ?st \<noteq> Some Focus" by (simp add: markApplied_def)
  have n: "\<not> (lastMode ?st = Some Panic \<and> Focus = Calm)" by simp
  have a: "lastAppliedAt ?st = 5000" by (simp add: markApplied_def)
  from c m canApply_cooldown_15 [OF c m n] show ?thesis by (simp add: a)
qed

text \<open>
  C7. With \<open>force = false\<close> and a candidate equal to the last applied mode, \<open>canApply\<close>
  returns false. It changes no field of the state, so a second call on the same state
  returns false again, whatever the clock and the configuration are by then.
\<close>

theorem canApply_same_mode_refused:
  assumes "lastMode st = Some mode"
  shows "\<not> canApply st cfg now mode False \<and> \<not> canApply st cfg' now' mode False"
  using assms by (simp add: canApply_def)

text \<open>
  The witness: focus applied at 5000; asked again right away and long after the
  cooldown, the answer is false.
\<close>

theorem canApply_same_mode_refused_witness:
  "lastMode (markApplied (newPersonalityState 0) 5000 Focus) = Some Focus
   \<and> \<not> canApply (markApplied (newPersonalityState 0) 5000 Focus) defaultConfig 5001 Focus False
   \<and> \<not> canApply (markApplied (newPersonalityState 0) 5000 Focus) defaultConfig 900000 Focus False"
proof -
  let ?st = "markApplied (newPersonalityState 0) 5000 Focus"
  have m: "lastMode ?st = Some Focus" by (simp add: markApplied_def)
  from m canApply_same_mode_refused [OF m, of defaultConfig 5001 defaultConfig 900000]
  show ?thesis by simp
qed

subsection \<open>The edit window\<close>

text \<open>
  C9. One edit per second at 0, 1, ..., 9 seconds leaves ten entries in the window, so
  the burst count read at 9 seconds is 10. One more edit at 11 seconds prunes what is
  older than 11 s - 10000 ms = 1 s: the window is then the entries from 1 to 11 seconds,
  without the entry of 0.
\<close>

theorem onEdit_window_ten_then_prune:
  "editsInWindow
     (recordEdits [0, 1000, 2000, 3000, 4000, 5000, 6000, 7000, 8000, 9000]
        (newPersonalityState t0)) = 10
   \<and> editTimestamps
     (onEdit 11000
        (recordEdits [0, 1000, 2000, 3000, 4000, 5000, 6000, 7000, 8000, 9000]
           (newPersonalityState t0)))
     = [1000, 2000, 3000, 4000, 5000, 6000, 7000, 8000, 9000, 11000]
   \<and> 0 \<notin> set (editTimestamps
     (onEdit 11000
        (recordEdits [0, 1000, 2000, 3000, 4000, 5000, 6000, 7000, 8000, 9000]
           (newPersonalityState t0))))"
  by (simp add: onEdit_def newPersonalityState_def editsInWindow_def)

text \<open>Steps towards the invariant: what one call of \<open>onEdit\<close> does to the window.\<close>

lemma onEdit_lastEditAt: "lastEditAt (onEdit now st) = now"
  by (simp add: onEdit_def)

lemma onEdit_sorted:
  assumes "sorted (editTimestamps st)"
    and "list_all (\<lambda>t. t \<le> now) (editTimestamps st)"
  shows "sorted (editTimestamps (onEdit now st))"
proof -
  have "sorted (editTimestamps st @ [now])"
    using assms by (simp add: sorted_append list_all_iff)
  then show ?thesis
    by (simp add: onEdit_def Let_def sorted_wrt_filter del: filter_append)
qed

lemma onEdit_fresh: "windowFresh now (onEdit now st)"
  by (simp add: windowFresh_def onEdit_def list_all_iff)

lemma onEdit_upper:
  assumes "list_all (\<lambda>t. t \<le> lastEditAt st) (editTimestamps st)"
    and "lastEditAt st \<le> now"
  shows "list_all (\<lambda>t. t \<le> now) (editTimestamps (onEdit now st))"
  using assms by (auto simp: onEdit_def list_all_iff)

lemma windowInv_new: "windowInv (newPersonalityState t0)"
  by (simp add: windowInv_def newPersonalityState_def windowFresh_def)

lemma windowInv_onEdit:
  assumes "windowInv st" and "lastEditAt st \<le> now"
  shows "windowInv (onEdit now st)"
proof -
  from assms have up: "list_all (\<lambda>t. t \<le> now) (editTimestamps st)"
    by (auto simp: windowInv_def list_all_iff)
  from assms have s: "sorted (editTimestamps st)"
    by (simp add: windowInv_def)
  have "sorted (editTimestamps (onEdit now st))"
    by (rule onEdit_sorted [OF s up])
  moreover have "windowFresh (lastEditAt (onEdit now st)) (onEdit now st)"
    by (simp add: onEdit_lastEditAt onEdit_fresh)
  moreover have "list_all (\<lambda>t. t \<le> lastEditAt (onEdit now st)) (editTimestamps (onEdit now st))"
    using assms onEdit_upper [of st now] by (simp add: onEdit_lastEditAt windowInv_def)
  ultimately show ?thesis
    by (simp add: windowInv_def)
qed

lemma windowInv_recordEdits:
  "windowInv st \<Longrightarrow> sorted (lastEditAt st # ts) \<Longrightarrow> windowInv (recordEdits ts st)"
proof (induction ts arbitrary: st)
  case Nil
  then show ?case by simp
next
  case (Cons t ts)
  from Cons.prems have le: "lastEditAt st \<le> t" by simp
  have inv: "windowInv (onEdit t st)"
    by (rule windowInv_onEdit [OF Cons.prems(1) le])
  from Cons.prems have "sorted (lastEditAt (onEdit t st) # ts)"
    by (simp add: onEdit_lastEditAt)
  from Cons.IH [OF inv this] show ?case by simp
qed

text \<open>
  C4, as claimed: at every read at a time \<open>now\<close>, also one by \<open>computeMode\<close> on a tick
  with no edit in between, each entry of the window is at least \<open>now - 10000\<close>. The
  window is pruned by \<open>onEdit\<close> only and \<open>computeMode\<close> reads it as it is: after one
  edit at time 0 the window still holds the entry 0 when it is read at 20 seconds.
\<close>

theorem window_stale_at_tick:
  "editTimestamps (onEdit 0 (newPersonalityState 0)) = [0]
   \<and> \<not> windowFresh 20000 (onEdit 0 (newPersonalityState 0))"
  by (simp add: windowFresh_def onEdit_def newPersonalityState_def)

text \<open>
  C4, amended: after any run of edits from the initial state under a clock that never
  goes back, the entries of the window are in ascending (chronological, insertion)
  order and each is at least \<open>lastEditAt - 10000\<close>, ten seconds before the latest edit
  (not before the time of the read).
\<close>

theorem window_sorted_and_fresh_at_last_edit:
  assumes "sorted (t0 # ts)"
  shows "sorted (editTimestamps (recordEdits ts (newPersonalityState t0))) \<and>
         windowFresh (lastEditAt (recordEdits ts (newPersonalityState t0)))
           (recordEdits ts (newPersonalityState t0))"
proof -
  have "sorted (lastEditAt (newPersonalityState t0) # ts)"
    using assms by (simp add: newPersonalityState_def)
  from windowInv_recordEdits [OF windowInv_new this] show ?thesis
    by (simp add: windowInv_def)
qed

text \<open>The witness: edits at 0, 4 and 15 seconds; only the last one is left.\<close>

theorem window_sorted_and_fresh_at_last_edit_witness:
  "sorted [0, 0, 4000, 15000 :: int]
   \<and> editTimestamps (recordEdits [0, 4000, 15000] (newPersonalityState 0)) = [15000]
   \<and> sorted (editTimestamps (recordEdits [0, 4000, 15000] (newPersonalityState 0)))
   \<and> windowFresh (lastEditAt (recordEdits [0, 4000, 15000] (newPersonalityState 0)))
       (recordEdits [0, 4000, 15000] (newPersonalityState 0))"
  using window_sorted_and_fresh_at_last_edit [of 0 "[0, 4000, 15000]"]
  by (simp add: onEdit_def newPersonalityState_def)

subsection \<open>Applying a mode\<close>

text \<open>
  C3, as claimed: when the theme update is not performed, or fails, \<open>lastMode\<close> and
  \<open>lastAppliedAt\<close> stay as they were. When the current colour theme already is the
  theme of the mode, \<open>applyMode\<close> skips the update and still calls \<open>markApplied\<close>: at
  startup (forced), with the focus theme already set, no update is made and the state
  goes from (none, 0) to (focus, 5).
\<close>

theorem applyMode_marks_without_update:
  "snd (snd (applyMode Focus (newPersonalityState 0) True defaultConfig
       \<lparr>textDocuments = [], diagnostics = [], colorTheme = Some ''Personality: Focus''\<rparr>
       False 0 5)) = AlreadyCurrent
   \<and> lastMode (newPersonalityState 0) = None
   \<and> lastMode (fst (applyMode Focus (newPersonalityState 0) True defaultConfig
       \<lparr>textDocuments = [], diagnostics = [], colorTheme = Some ''Personality: Focus''\<rparr>
       False 0 5)) = Some Focus
   \<and> lastAppliedAt (newPersonalityState 0) = 0
   \<and> lastAppliedAt (fst (applyMode Focus (newPersonalityState 0) True defaultConfig
       \<lparr>textDocuments = [], diagnostics = [], colorTheme = Some ''Personality: Focus''\<rparr>
       False 0 5)) = 5"
  by (simp add: applyMode_def canApply_def themeOf_def defaultConfig_def markApplied_def
      newPersonalityState_def)

text \<open>
  C3, amended: \<open>applyMode\<close> leaves the state unchanged when \<open>canApply\<close> refuses and
  when the update it attempts fails; it calls \<open>markApplied\<close> (setting \<open>lastAppliedAt\<close>
  to the clock and \<open>lastMode\<close> to the mode) when \<open>canApply\<close> permits and either the
  update succeeds or the current theme already is the wanted one, in which case no
  update is made.
\<close>

theorem applyMode_state:
  "(\<not> canApply st cfg now mode force
      \<longrightarrow> applyMode mode st force cfg h updateResolves now nowMark = (st, h, Refused))
   \<and> (canApply st cfg now mode force \<and> colorTheme h \<noteq> Some (themeOf cfg mode)
        \<and> \<not> updateResolves
      \<longrightarrow> applyMode mode st force cfg h updateResolves now nowMark = (st, h, UpdateFailed))
   \<and> (canApply st cfg now mode force \<and> colorTheme h \<noteq> Some (themeOf cfg mode)
        \<and> updateResolves
      \<longrightarrow> fst (applyMode mode st force cfg h updateResolves now nowMark)
            = markApplied st nowMark mode
          \<and> snd (snd (applyMode mode st force cfg h updateResolves now nowMark)) = Updated)
   \<and> (canApply st cfg now mode force \<and> colorTheme h = Some (themeOf cfg mode)
      \<longrightarrow> applyMode mode st force cfg h updateResolves now nowMark
            = (markApplied st nowMark mode, h, AlreadyCurrent))"
  by (simp add: applyMode_def Let_def)

text \<open>
  The witness, one run for each case: a refused repeat of the applied mode; a forced
  apply whose update fails; the same with an update that succeeds; and a forced apply
  with the wanted theme already set.
\<close>

theorem applyMode_state_witness:
  "\<not> canApply (markApplied (newPersonalityState 0) 5000 Focus) defaultConfig 6000 Focus False
   \<and> applyMode Focus (markApplied (newPersonalityState 0) 5000 Focus) False defaultConfig
        \<lparr>textDocuments = [], diagnostics = [], colorTheme = Some ''Default Dark''\<rparr> True 6000 6001
      = (markApplied (newPersonalityState 0) 5000 Focus,
         \<lparr>textDocuments = [], diagnostics = [], colorTheme = Some ''Default Dark''\<rparr>, Refused)
   \<and> canApply (newPersonalityState 0) defaultConfig 0 Panic True
   \<and> Some ''Default Dark'' \<noteq> Some (themeOf defaultConfig Panic)
   \<and> applyMode Panic (newPersonalityState 0) True defaultConfig
        \<lparr>textDocuments = [], diagnostics = [], colorTheme = Some ''Default Dark''\<rparr> False 0 5
      = (newPersonalityState 0,
         \<lparr>textDocuments = [], diagnostics = [], colorTheme = Some ''Default Dark''\<rparr>, UpdateFailed)
   \<and> fst (applyMode Panic (newPersonalityState 0) True defaultConfig
        \<lparr>textDocuments = [], diagnostics = [], colorTheme = Some ''Default Dark''\<rparr> True 0 5)
      = markApplied (newPersonalityState 0) 5 Panic
   \<and> snd (snd (applyMode Panic (newPersonalityState 0) True defaultConfig
        \<lparr>textDocuments = [], diagnostics = [], colorTheme = Some ''Default Dark''\<rparr> True 0 5))
      = Updated
   \<and> applyMode Focus (newPersonalityState 0) True defaultConfig
        \<lparr>textDocuments = [], diagnostics = [], colorTheme = Some ''Personality: Focus''\<rparr> False 0 5
      = (markApplied (newPersonalityState 0) 5 Focus,
         \<lparr>textDocuments = [], diagnostics = [], colorTheme = Some ''Personality: Focus''\<rparr>,
         AlreadyCurrent)"
proof -
  let ?dark = "\<lparr>textDocuments = [], diagnostics = [], colorTheme = Some ''Default Dark''\<rparr>"
  let ?focus = "\<lparr>textDocuments = [], diagnostics = [], colorTheme = Some ''Personality: Focus''\<rparr>"
  let ?applied = "markApplied (newPersonalityState 0) 5000 Focus"
  have refused: "\<not> canApply ?applied defaultConfig 6000 Focus False"
    by (simp add: canApply_def markApplied_def)
  have forced: "canApply (newPersonalityState 0) defaultConfig 0 mode True" for mode
    by (simp add: canApply_def)
  have other: "colorTheme ?dark \<noteq> Some (themeOf defaultConfig Panic)"
    by (simp add: themeOf_def defaultConfig_def)
  have same: "colorTheme ?focus = Some (themeOf defaultConfig Focus)"
    by (simp add: themeOf_def defaultConfig_def)
  from refused forced other same
    applyMode_state [of ?applied defaultConfig 6000 Focus False ?dark True 6001]
    applyMode_state [of "newPersonalityState 0" defaultConfig 0 Panic True ?dark False 5]
    applyMode_state [of "newPersonalityState 0" defaultConfig 0 Panic True ?dark True 5]
    applyMode_state [of "newPersonalityState 0" defaultConfig 0 Focus True ?focus False 5]
  show ?thesis by simp
qed

subsection \<open>The timer handler\<close>

text \<open>
  Leaving panic on a tick: when the last applied mode is \<open>Panic\<close> and the computed mode
  is another one, the handler forces the apply, so with an update that succeeds the
  computed mode is marked applied, whatever the cooldown.
\<close>

theorem tick_panic_recovery_forced:
  assumes "lastMode st = Some Panic"
    and "computeMode st cfg now h \<noteq> Panic"
    and "updateResolves"
  shows "fst (tick st cfg h updateResolves now nowMark)
           = markApplied st nowMark (computeMode st cfg now h)"
  using assms
  by (simp add: tick_def Let_def isPanicRecovery_def applyMode_def canApply_def)

text \<open>
  The witness: panic applied at 1000; one millisecond later the diagnostics are gone,
  the computed mode is focus and it is applied although the cooldown has not passed.
\<close>

theorem tick_panic_recovery_forced_witness:
  "lastMode (markApplied (newPersonalityState 0) 1000 Panic) = Some Panic
   \<and> computeMode (markApplied (newPersonalityState 0) 1000 Panic) defaultConfig 1001
        \<lparr>textDocuments = [], diagnostics = [], colorTheme = Some ''Personality: Panic''\<rparr> = Focus
   \<and> \<not> canApply (markApplied (newPersonalityState 0) 1000 Panic) defaultConfig 1001 Focus False
   \<and> fst (tick (markApplied (newPersonalityState 0) 1000 Panic) defaultConfig
        \<lparr>textDocuments = [], diagnostics = [], colorTheme = Some ''Personality: Panic''\<rparr>
        True 1001 1002)
      = markApplied (markApplied (newPersonalityState 0) 1000 Panic) 1002 Focus"
proof -
  let ?st = "markApplied (newPersonalityState 0) 1000 Panic"
  let ?h = "\<lparr>textDocuments = [], diagnostics = [], colorTheme = Some ''Personality: Panic''\<rparr>"
  have p: "lastMode ?st = Some Panic"
    by (simp add: markApplied_def)
  have m: "computeMode ?st defaultConfig 1001 ?h = Focus"
    by (simp add: computeMode_def countAllDiagnostics_def editsInWindow_def markApplied_def
        newPersonalityState_def defaultConfig_def)
  have n: "computeMode ?st defaultConfig 1001 ?h \<noteq> Panic"
    by (simp add: m)
  have c: "\<not> canApply ?st defaultConfig 1001 Focus False"
    by (simp add: canApply_def markApplied_def newPersonalityState_def defaultConfig_def)
  from p m c tick_panic_recovery_forced [OF p n, of True 1002] show ?thesis by simp
qed

end
